theory Spec2Isabelle
  imports Main
begin

section \<open>Logging\<close>

text \<open>
  Both modules log through a bunyan logger.  Only the severity and the arguments of each
  call are kept: \<open>log.info(msg)\<close>, \<open>log.error(msg, err)\<close> and \<open>log.error(err)\<close>.
  Logging itself is taken never to fail.
\<close>

datatype 'e log_entry =
    LogInfo string
  | LogErrorMsg string 'e
  | LogErrorObj 'e

section \<open>setupDatabase.ts: the connection supervisor\<close>

text \<open>
  The only closure the module ever registers as an event listener is \<open>connect\<close>.
\<close>

datatype listener = ConnectFn

text \<open>
  The observable state of the module and of the process it runs in:
  how often \<open>mongoose.connect\<close> has been called, how many of the promises it returned are
  still unsettled, the listeners registered on \<open>mongoose.connection\<close> (event name and
  listener, in registration order), the log, the exit code once \<open>process.exit\<close> has
  been called, and whether an uncaught exception has ended the process.
\<close>

record 'e db_state =
  attempts :: nat
  pending :: nat
  listeners :: "(string \<times> listener) list"
  db_log :: "'e log_entry list"
  exit_code :: "int option"
  crashed :: bool

definition init_db :: "'e db_state" where
  "init_db =
     \<lparr>attempts = 0, pending = 0, listeners = [], db_log = [], exit_code = None, crashed = False\<rparr>"

text \<open>
  \<open>connect\<close> (lines 8-17): calls \<open>mongoose.connect\<close>; the \<open>then\<close> and \<open>catch\<close> callbacks run
  later, when the promise settles.
\<close>

definition connect :: "'e db_state \<Rightarrow> 'e db_state" where
  "connect s = s\<lparr>attempts := Suc (attempts s), pending := Suc (pending s)\<rparr>"

text \<open>The \<open>then\<close> callback (lines 10-12).\<close>

definition on_connected :: "'e db_state \<Rightarrow> 'e db_state" where
  "on_connected s = s\<lparr>db_log := db_log s @ [LogInfo ''[+] Successfully connected to database...'']\<rparr>"

text \<open>The \<open>catch\<close> callback (lines 13-16): log the error, then \<open>process.exit(1)\<close>.\<close>

definition on_connect_error :: "'e \<Rightarrow> 'e db_state \<Rightarrow> 'e db_state" where
  "on_connect_error e s =
     s\<lparr>db_log := db_log s @ [LogErrorMsg ''[x] Error connecting to database'' e],
       exit_code := Some 1\<rparr>"

text \<open>\<open>mongoose.connection.on(name, fn)\<close>: append a listener for the event called \<open>name\<close>.\<close>

definition connection_on :: "string \<Rightarrow> listener \<Rightarrow> 'e db_state \<Rightarrow> 'e db_state" where
  "connection_on name fn s = s\<lparr>listeners := listeners s @ [(name, fn)]\<rparr>"

text \<open>The event name under which line 19 registers \<open>connect\<close>.\<close>

definition listener_event :: string where
  "listener_event = ''[*] MongoDb disconnected, trying to reconnect...''"

text \<open>
  The name of the event that a mongoose connection emits when it loses its connection to
  the store: the disconnect notification.
\<close>

definition disconnected_event :: string where
  "disconnected_event = ''disconnected''"

text \<open>The default export (lines 7-20): \<open>connect()\<close>, then register the listener.\<close>

definition setupDatabase :: "'e db_state \<Rightarrow> 'e db_state" where
  "setupDatabase s = connection_on listener_event ConnectFn (connect s)"

text \<open>
  What the environment does to the module afterwards: the oldest unsettled
  \<open>mongoose.connect\<close> promise resolves or rejects, or the connection emits an event.
\<close>

datatype 'e db_event = Resolved | Rejected 'e | Emit string

fun call_listener :: "listener \<Rightarrow> 'e db_state \<Rightarrow> 'e db_state" where
  "call_listener ConnectFn s = connect s"

text \<open>
  Emitting an event calls, in registration order, the listeners registered under its name.
  An event emitter throws when it emits \<open>error\<close> and no listener is registered for it; thrown
  from a turn of the event loop, that exception is uncaught and ends the process.
\<close>

definition emit :: "string \<Rightarrow> 'e db_state \<Rightarrow> 'e db_state" where
  "emit name s =
     (if name = ''error'' \<and> filter (\<lambda>l. fst l = name) (listeners s) = []
      then s\<lparr>crashed := True\<rparr>
      else fold call_listener (map snd (filter (\<lambda>l. fst l = name) (listeners s))) s)"

text \<open>
  One turn of the event loop.  After \<open>process.exit\<close> or an uncaught exception nothing
  runs any more.
\<close>

fun db_step :: "'e db_event \<Rightarrow> 'e db_state \<Rightarrow> 'e db_state" where
  "db_step ev s =
     (case exit_code s of
        Some c \<Rightarrow> s
      | None \<Rightarrow>
          if crashed s then s else
          (case ev of
             Resolved \<Rightarrow>
               if pending s = 0 then s else on_connected (s\<lparr>pending := pending s - 1\<rparr>)
           | Rejected e \<Rightarrow>
               if pending s = 0 then s else on_connect_error e (s\<lparr>pending := pending s - 1\<rparr>)
           | Emit name \<Rightarrow> emit name s))"

definition db_run :: "'e db_event list \<Rightarrow> 'e db_state \<Rightarrow> 'e db_state" where
  "db_run evs s = fold db_step evs s"

section \<open>The server module: configuration\<close>

text \<open>
  The fields of \<open>config\<close> that the server module reads.  Each is an environment variable
  and may be undefined.
\<close>

record config =
  CLIENT_URL :: "string option"
  REDIS_HOST :: "string option"
  SECRET_KEY_ONE :: "string option"
  SECRET_KEY_TWO :: "string option"
  NODE_ENV :: "string option"

definition SERVER_PORT :: nat where
  "SERVER_PORT = 5000"

text \<open>\<open>HTTP_STATUS.NOT_FOUND\<close> of the http-status-codes package.\<close>

definition NOT_FOUND :: int where
  "NOT_FOUND = 404"

text \<open>
  The options object given to \<open>cors(...)\<close> and to the \<open>cors\<close> key of the socket.io server;
  a key that the object literal does not set is \<open>None\<close>.
\<close>

record cors_options =
  origin :: "string option"
  credentials :: "bool option"
  optionsSuccessStatus :: "nat option"
  methods :: "string list"

record cookie_options =
  cookie_name :: string
  cookie_keys :: "string option list"
  maxAge :: nat
  secure :: bool

text \<open>The object literal of lines 67-72.\<close>

definition http_cors :: "config \<Rightarrow> cors_options" where
  "http_cors cfg =
     \<lparr>origin = CLIENT_URL cfg, credentials = Some True, optionsSuccessStatus = Some 200,
      methods = [''GET'', ''POST'', ''PUT'', ''DELETE'', ''OPTIONS'']\<rparr>"

text \<open>The object literal of lines 113-116.\<close>

definition socket_cors :: "config \<Rightarrow> cors_options" where
  "socket_cors cfg =
     \<lparr>origin = CLIENT_URL cfg, credentials = None, optionsSuccessStatus = None,
      methods = [''GET'', ''POST'', ''PUT'', ''DELETE'', ''OPTIONS'']\<rparr>"

text \<open>The object literal of lines 57-62.\<close>

definition session_options :: "config \<Rightarrow> cookie_options" where
  "session_options cfg =
     \<lparr>cookie_name = ''session'', cookie_keys = [SECRET_KEY_ONE cfg, SECRET_KEY_TWO cfg],
      maxAge = 24 * 7 * 3600000, secure = (NODE_ENV cfg \<noteq> Some ''development'')\<rparr>"

section \<open>The server module: the request pipeline\<close>

text \<open>
  The third-party middleware that \<open>securityMiddleware\<close> and \<open>standardMiddleware\<close> register,
  each with the options it is built from.
\<close>

datatype middleware =
    CookieSession cookie_options
  | Hpp
  | Helmet
  | Cors cors_options
  | Compression
  | Json string
  | Urlencoded bool string

text \<open>
  A layer of the Express application, in registration order: a middleware mounted with
  \<open>app.use\<close>, one of the routes that \<open>applicationRoutes\<close> registers (their module is not
  part of these sources, so a route is a value of a type parameter), the
  \<open>app.all('*', ...)\<close> handler of line 86 and the four-argument handler of line 91.
\<close>

datatype 'r layer = Use middleware | Route 'r | AllStar | ErrorUse

definition securityMiddleware :: "config \<Rightarrow> 'r layer list \<Rightarrow> 'r layer list" where
  "securityMiddleware cfg app =
     app @ [Use (CookieSession (session_options cfg)), Use Hpp, Use Helmet,
            Use (Cors (http_cors cfg))]"

definition standardMiddleware :: "'r layer list \<Rightarrow> 'r layer list" where
  "standardMiddleware app =
     app @ [Use Compression, Use (Json ''50mb''), Use (Urlencoded True ''50mb'')]"

text \<open>\<open>applicationRoutes(app)\<close>: the routes it registers are a parameter.\<close>

definition routesMiddleware :: "'r list \<Rightarrow> 'r layer list \<Rightarrow> 'r layer list" where
  "routesMiddleware routes app = app @ map Route routes"

definition globalErrorHandler :: "'r layer list \<Rightarrow> 'r layer list" where
  "globalErrorHandler app = app @ [AllStar, ErrorUse]"

text \<open>The requests and responses, as far as the two handlers of the module touch them.\<close>

record request =
  req_method :: string
  originalUrl :: string

text \<open>
  What is sent as the body: the object \<open>{message: ...}\<close> of line 87, whatever
  \<open>serializeError()\<close> returns, or nothing (a response ended without a body).
\<close>

datatype 'p body = Message string | Payload 'p | Empty

text \<open>
  The response: the status code that goes out with it and what has been sent;
  \<open>sent = None\<close> means that nothing has been sent.  Once something has been sent, the
  status code is the one the client got.
\<close>

record 'p response =
  statusCode :: int
  sent :: "'p body option"

definition fresh_response :: "'p response" where
  "fresh_response = \<lparr>statusCode = 200, sent = None\<rparr>"

text \<open>The exceptions that writing a response can throw.\<close>

datatype node_error = ERR_HTTP_HEADERS_SENT | ERR_HTTP_INVALID_STATUS_CODE int

text \<open>
  \<open>res.status(c).json(b)\<close>: \<open>status\<close> stores the code; \<open>json\<close> then throws if a response has
  already been sent (which the call leaves as the client got it), or if the stored code
  is not a three-digit status, and otherwise sends the body.  The result is the response
  and the exception, if any.
\<close>

definition status_json :: "int \<Rightarrow> 'p body \<Rightarrow> 'p response \<Rightarrow> 'p response \<times> node_error option" where
  "status_json c b res =
     (if sent res \<noteq> None then (res, Some ERR_HTTP_HEADERS_SENT)
      else if c < 100 \<or> 999 < c
        then (res\<lparr>statusCode := c\<rparr>, Some (ERR_HTTP_INVALID_STATUS_CODE c))
      else (res\<lparr>statusCode := c, sent := Some b\<rparr>, None))"

text \<open>
  Ending a response with a status code and no body, as the CORS middleware does for a
  preflight request.
\<close>

definition end_response :: "int \<Rightarrow> 'p response \<Rightarrow> 'p response" where
  "end_response c res =
     (case sent res of
        None \<Rightarrow> res\<lparr>statusCode := c, sent := Some Empty\<rparr>
      | Some b \<Rightarrow> res)"

text \<open>
  What is thrown or passed to \<open>next\<close>: an instance of \<open>CustomError\<close> (the class is declared
  outside these sources, so its instances are a type parameter, and its \<open>statusCode\<close>
  field and \<open>serializeError\<close> method are parameters of the handler), or anything else.
\<close>

datatype ('c, 'u) thrown = Custom 'c | Unknown 'u

text \<open>
  How a handler gives up control: it returns without calling \<open>next\<close>, it calls \<open>next()\<close>,
  it calls \<open>next(err)\<close> (or throws \<open>err\<close>), or a response write inside it throws.
\<close>

datatype 'e control = Stop | Next | NextErr 'e | Throws node_error

text \<open>The response under construction and the log of the server module.\<close>

record ('c, 'u, 'p) exchange =
  resp :: "'p response"
  srv_log :: "('c, 'u) thrown log_entry list"

text \<open>
  The catch-all handler (lines 86-88).  It takes no \<open>next\<close> and so never passes control on
  itself.
\<close>

definition notFoundHandler ::
  "request \<Rightarrow> ('c, 'u, 'p) exchange \<Rightarrow> ('c, 'u, 'p) exchange \<times> ('c, 'u) thrown control" where
  "notFoundHandler req x =
     (case status_json NOT_FOUND (Message (originalUrl req @ '' not found.'')) (resp x) of
        (r, Some ne) \<Rightarrow> (x\<lparr>resp := r\<rparr>, Throws ne)
      | (r, None) \<Rightarrow> (x\<lparr>resp := r\<rparr>, Stop))"

text \<open>
  The failure handler (lines 91-97): log the error, answer if it is a \<open>CustomError\<close>, and
  call \<open>next()\<close> in either case, unless the answer throws.
\<close>

definition errorHandler ::
  "('c \<Rightarrow> int) \<Rightarrow> ('c \<Rightarrow> 'p) \<Rightarrow> ('c, 'u) thrown \<Rightarrow> request \<Rightarrow> ('c, 'u, 'p) exchange
     \<Rightarrow> ('c, 'u, 'p) exchange \<times> ('c, 'u) thrown control" where
  "errorHandler statusCodeOf serializeError error req x =
     (let x1 = x\<lparr>srv_log := srv_log x @ [LogErrorObj error]\<rparr>
      in case error of
           Custom c \<Rightarrow>
             (case status_json (statusCodeOf c) (Payload (serializeError c)) (resp x1) of
                (r, Some ne) \<Rightarrow> (x1\<lparr>resp := r\<rparr>, Throws ne)
              | (r, None) \<Rightarrow> (x1\<lparr>resp := r\<rparr>, Next))
         | Unknown u \<Rightarrow> (x1, Next))"

text \<open>
  The behaviour of everything the module only wires together: the \<open>CustomError\<close> accessors,
  what each third-party middleware does to a request (it may change the response and then
  passes on, answers, or fails), which requests a route matches and what its handler does,
  the error object that stands for an exception of a response write, and the error, if
  any, with which the framework fails to decode the path of a request for the \<open>'*'\<close> route
  (a malformed percent-encoding).
\<close>

record ('r, 'c, 'u, 'p) wiring =
  statusCodeOf :: "'c \<Rightarrow> int"
  serializeError :: "'c \<Rightarrow> 'p"
  middleware_run :: "middleware \<Rightarrow> request \<Rightarrow> 'p response \<Rightarrow> 'p response \<times> ('c, 'u) thrown control"
  route_matches :: "'r \<Rightarrow> request \<Rightarrow> bool"
  route_run :: "'r \<Rightarrow> request \<Rightarrow> 'p response \<Rightarrow> 'p response \<times> ('c, 'u) thrown control"
  node_error_value :: "node_error \<Rightarrow> 'u"
  path_decode_error :: "request \<Rightarrow> 'u option"

text \<open>
  How a request leaves the layers: some handler kept control (the request is finished
  with whatever was sent), or control fell off the end of the layer list, with or without
  a pending error, and goes to the framework's final handler.
\<close>

datatype ('c, 'u, 'p) outcome =
    Finished "('c, 'u, 'p) exchange"
  | FellThrough "('c, 'u, 'p) exchange" "('c, 'u) thrown option"

text \<open>
  The CORS middleware, built without \<open>preflightContinue\<close>, answers every \<open>OPTIONS\<close> request
  itself: it ends the response with \<open>optionsSuccessStatus\<close> (204 if not set) and does not
  call \<open>next\<close>.
\<close>

fun preflight_status :: "middleware \<Rightarrow> request \<Rightarrow> int option" where
  "preflight_status (Cors opts) req =
     (if req_method req = ''OPTIONS''
      then Some (case optionsSuccessStatus opts of Some n \<Rightarrow> int n | None \<Rightarrow> 204)
      else None)"
| "preflight_status m req = None"

text \<open>
  Running one layer that applies to the request while no error is pending.  What a
  third-party middleware does otherwise is given by the wiring.  The \<open>'*'\<close> route runs
  its handler only if the path of the request decodes.
\<close>

fun run_layer ::
  "('r, 'c, 'u, 'p) wiring \<Rightarrow> 'r layer \<Rightarrow> request \<Rightarrow> ('c, 'u, 'p) exchange
     \<Rightarrow> ('c, 'u, 'p) exchange \<times> ('c, 'u) thrown control" where
  "run_layer w (Use m) req x =
     (case preflight_status m req of
        Some code \<Rightarrow> (x\<lparr>resp := end_response code (resp x)\<rparr>, Stop)
      | None \<Rightarrow> (case middleware_run w m req (resp x) of (r, c) \<Rightarrow> (x\<lparr>resp := r\<rparr>, c)))"
| "run_layer w (Route r) req x =
     (if route_matches w r req
      then (case route_run w r req (resp x) of (r', c) \<Rightarrow> (x\<lparr>resp := r'\<rparr>, c))
      else (x, Next))"
| "run_layer w AllStar req x =
     (case path_decode_error w req of
        Some err \<Rightarrow> (x, NextErr (Unknown err))
      | None \<Rightarrow> notFoundHandler req x)"
| "run_layer w ErrorUse req x = (x, Next)"

text \<open>
  Express walks the layers in registration order.  While no error is pending the
  four-argument handlers are skipped; while an error is pending only they run.  An
  exception thrown inside a handler becomes the pending error.
\<close>

fun dispatch ::
  "('r, 'c, 'u, 'p) wiring \<Rightarrow> 'r layer list \<Rightarrow> request \<Rightarrow> ('c, 'u) thrown option
     \<Rightarrow> ('c, 'u, 'p) exchange \<Rightarrow> ('c, 'u, 'p) outcome" where
  "dispatch w [] req err x = FellThrough x err"
| "dispatch w (l # ls) req None x =
     (case run_layer w l req x of
        (x', Stop) \<Rightarrow> Finished x'
      | (x', Next) \<Rightarrow> dispatch w ls req None x'
      | (x', NextErr e) \<Rightarrow> dispatch w ls req (Some e) x'
      | (x', Throws ne) \<Rightarrow> dispatch w ls req (Some (Unknown (node_error_value w ne))) x')"
| "dispatch w (l # ls) req (Some e) x =
     (case l of
        ErrorUse \<Rightarrow>
          (case errorHandler (statusCodeOf w) (serializeError w) e req x of
             (x', Stop) \<Rightarrow> Finished x'
           | (x', Next) \<Rightarrow> dispatch w ls req None x'
           | (x', NextErr e') \<Rightarrow> dispatch w ls req (Some e') x'
           | (x', Throws ne) \<Rightarrow> dispatch w ls req (Some (Unknown (node_error_value w ne))) x')
      | _ \<Rightarrow> dispatch w ls req (Some e) x)"

definition new_exchange :: "('c, 'u, 'p) exchange" where
  "new_exchange = \<lparr>resp = fresh_response, srv_log = []\<rparr>"

section \<open>The server module: starting the server\<close>

text \<open>
  The calls that \<open>startServer\<close>, \<open>createSocketIO\<close> and \<open>startHttpServer\<close> make, in the order
  in which they are made.  \<open>PubConnect\<close> and \<open>SubConnect\<close> are the two calls of \<open>connect()\<close>,
  each of which starts opening a client and returns a promise; \<open>AwaitAll\<close> is the
  \<open>await Promise.all([...])\<close> on the two promises; \<open>InstallAdapter\<close> is \<open>io.adapter(...)\<close>.
  \<open>socketIOConnections\<close> has an empty body and makes no call.
\<close>

datatype 'e op =
    NewHttpServer
  | NewSocketServer cors_options
  | CreateClient "string option"
  | Duplicate
  | PubConnect
  | SubConnect
  | AwaitAll
  | CreateAdapter
  | InstallAdapter
  | Log "'e log_entry"
  | Listen nat

text \<open>
  What the surroundings decide: whether a call throws, whether each of the two
  \<open>connect()\<close> promises rejects and which of them settles first, the process id, and
  whether the HTTP server, once \<open>listen\<close> has returned, fails to bind its port.
\<close>

record 'e environment =
  throws :: "'e op \<Rightarrow> 'e option"
  pubResult :: "'e option"
  subResult :: "'e option"
  pubFirst :: bool
  pid :: string
  listenResult :: "'e option"

text \<open>
  \<open>Promise.all\<close> resolves when both promises have resolved and rejects with the reason of
  the first one that rejects.
\<close>

definition promise_all :: "'e environment \<Rightarrow> 'e option" where
  "promise_all env =
     (case pubResult env of
        None \<Rightarrow> subResult env
      | Some e1 \<Rightarrow>
          (case subResult env of
             None \<Rightarrow> Some e1
           | Some e2 \<Rightarrow> Some (if pubFirst env then e1 else e2)))"

text \<open>The exception, if any, with which a call ends.\<close>

fun perform :: "'e environment \<Rightarrow> 'e op \<Rightarrow> 'e option" where
  "perform env AwaitAll = promise_all env"
| "perform env (Log l) = None"
| "perform env c = throws env c"

text \<open>
  Straight-line code: the calls are made in order and the first exception ends the
  sequence.  The result is the calls made so far and the exception, if any.
\<close>

fun exec :: "'e environment \<Rightarrow> 'e op list \<Rightarrow> 'e op list \<Rightarrow> 'e op list \<times> 'e option" where
  "exec env [] t = (t, None)"
| "exec env (c # cs) t =
     (case perform env c of
        Some e \<Rightarrow> (t @ [c], Some e)
      | None \<Rightarrow> exec env cs (t @ [c]))"

definition and_then ::
  "'e op list \<times> 'e option \<Rightarrow> ('e op list \<Rightarrow> 'e op list \<times> 'e option) \<Rightarrow> 'e op list \<times> 'e option" where
  "and_then r f = (case r of (t, Some e) \<Rightarrow> (t, Some e) | (t, None) \<Rightarrow> f t)"

text \<open>\<open>createSocketIO\<close> (lines 111-123).\<close>

definition createSocketIO ::
  "config \<Rightarrow> 'e environment \<Rightarrow> 'e op list \<Rightarrow> 'e op list \<times> 'e option" where
  "createSocketIO cfg env t =
     exec env
       [NewSocketServer (socket_cors cfg), CreateClient (REDIS_HOST cfg), Duplicate,
        PubConnect, SubConnect, AwaitAll, CreateAdapter, InstallAdapter] t"

text \<open>
  \<open>startHttpServer\<close> (lines 124-129).  The callback given to \<open>listen\<close> runs once the server
  is listening and logs \<open>listening_message\<close>.
\<close>

definition startHttpServer :: "'e environment \<Rightarrow> 'e op list \<Rightarrow> 'e op list \<times> 'e option" where
  "startHttpServer env t =
     exec env [Log (LogInfo (''Server has started with process '' @ pid env)), Listen SERVER_PORT] t"

definition listening_message :: "'e log_entry" where
  "listening_message = LogInfo ''[+] Server running on port 5000''"

definition socketIOConnections :: "'e op list \<Rightarrow> 'e op list \<times> 'e option" where
  "socketIOConnections t = (t, None)"

text \<open>The \<open>try\<close> block of \<open>startServer\<close> (lines 102-105).\<close>

definition startServer_try :: "config \<Rightarrow> 'e environment \<Rightarrow> 'e op list \<times> 'e option" where
  "startServer_try cfg env =
     and_then (and_then (and_then (exec env [NewHttpServer] [])
       (createSocketIO cfg env)) (startHttpServer env)) socketIOConnections"

text \<open>
  The calls of the \<open>try\<close> block in program order, as they are made when none of them
  fails: those of line 102, of \<open>createSocketIO\<close> and of \<open>startHttpServer\<close>.
\<close>

definition try_block_calls :: "config \<Rightarrow> 'e environment \<Rightarrow> 'e op list" where
  "try_block_calls cfg env =
     [NewHttpServer,
      NewSocketServer (socket_cors cfg), CreateClient (REDIS_HOST cfg), Duplicate,
      PubConnect, SubConnect, AwaitAll, CreateAdapter, InstallAdapter,
      Log (LogInfo (''Server has started with process '' @ pid env)), Listen SERVER_PORT]"

text \<open>
  \<open>startServer\<close> (lines 100-109): the \<open>try\<close> block and its \<open>catch\<close>.  The second component is
  the reason with which the promise that \<open>startServer\<close> returns rejects, \<open>None\<close> if it
  resolves.
\<close>

definition startServer :: "config \<Rightarrow> 'e environment \<Rightarrow> 'e op list \<times> 'e option" where
  "startServer cfg env =
     (case startServer_try cfg env of
        (t, Some err) \<Rightarrow> (t @ [Log (LogErrorObj err)], None)
      | (t, None) \<Rightarrow> (t, None))"

text \<open>
  What happens after \<open>startServer\<close> has returned.  \<open>listen\<close> returns at once and the port is
  bound later.  If that succeeds, the callback of line 126 logs \<open>listening_message\<close>.  If it
  fails (the port is in use), the HTTP server emits \<open>error\<close>; the module registers no
  listener for it, so the exception is uncaught and ends the process.  The result is the
  calls made and that uncaught exception, if any.  Nothing is pending if the \<open>try\<close> block
  did not get through \<open>listen\<close>.
\<close>

definition after_listen :: "config \<Rightarrow> 'e environment \<Rightarrow> 'e op list \<times> 'e option" where
  "after_listen cfg env =
     (case startServer_try cfg env of
        (t, Some err) \<Rightarrow> (fst (startServer cfg env), None)
      | (t, None) \<Rightarrow>
          (case listenResult env of
             None \<Rightarrow> (t @ [Log listening_message], None)
           | Some e \<Rightarrow> (t, Some e)))"

text \<open>
  \<open>ChattyServer.start\<close> (lines 47-53): the pipeline it leaves on the application, the calls
  of the startup path, and the rejection, if any, of the promise of \<open>startServer\<close>, which
  \<open>start\<close> neither awaits nor handles.
\<close>

record ('r, 'e) started =
  pipeline :: "'r layer list"
  startup_calls :: "'e op list"
  startup_rejection :: "'e option"

definition start :: "config \<Rightarrow> 'e environment \<Rightarrow> 'r list \<Rightarrow> 'r layer list \<Rightarrow> ('r, 'e) started" where
  "start cfg env routes app =
     (let app1 = securityMiddleware cfg app;
          app2 = standardMiddleware app1;
          app3 = routesMiddleware routes app2;
          app4 = globalErrorHandler app3;
          (t, r) = startServer cfg env
      in \<lparr>pipeline = app4, startup_calls = t, startup_rejection = r\<rparr>)"

section \<open>Concrete inputs\<close>

text \<open>
  A configuration and four surroundings used to evaluate the definitions: in \<open>all_up\<close>
  every call succeeds and the port is bound; in \<open>broker_down\<close> opening the subscribe
  client fails; in \<open>bad_redis_url\<close> the call of \<open>createClient\<close> throws; in \<open>port_in_use\<close>
  every call succeeds and the port cannot be bound.
\<close>

definition no_throw :: "'e op \<Rightarrow> 'e option" where
  "no_throw c = None"

definition example_config :: config where
  "example_config =
     \<lparr>CLIENT_URL = Some ''http://localhost:3000'', REDIS_HOST = Some ''redis://localhost:6379'',
      SECRET_KEY_ONE = Some ''k1'', SECRET_KEY_TWO = Some ''k2'', NODE_ENV = Some ''development''\<rparr>"

definition broker_down :: "string environment" where
  "broker_down =
     \<lparr>throws = no_throw, pubResult = None, subResult = Some ''ECONNREFUSED'',
      pubFirst = True, pid = ''4242'', listenResult = None\<rparr>"

definition all_up :: "string environment" where
  "all_up =
     \<lparr>throws = no_throw, pubResult = None, subResult = None, pubFirst = True, pid = ''4242'',
      listenResult = None\<rparr>"

fun invalid_url_throws :: "string op \<Rightarrow> string option" where
  "invalid_url_throws (CreateClient url) = Some ''ERR_INVALID_URL''"
| "invalid_url_throws c = None"

definition bad_redis_url :: "string environment" where
  "bad_redis_url =
     \<lparr>throws = invalid_url_throws, pubResult = None, subResult = None, pubFirst = True,
      pid = ''4242'', listenResult = None\<rparr>"

definition port_in_use :: "string environment" where
  "port_in_use =
     \<lparr>throws = no_throw, pubResult = None, subResult = None, pubFirst = True, pid = ''4242'',
      listenResult = Some ''EADDRINUSE''\<rparr>"

text \<open>
  A wiring with these routes: \<open>/forbidden\<close> throws a \<open>CustomError\<close> with status 403,
  \<open>/boom\<close> throws something else, \<open>/ok\<close> answers, and \<open>/late\<close> answers and then throws a
  \<open>CustomError\<close>.  Every third-party middleware passes on what it does not answer itself.
  A \<open>CustomError\<close> is a status code with a message, and serialises to its message.  An
  exception of a response write is known by its name.  The one path that does not decode
  is \<open>/%\<close>.
\<close>

definition example_request :: "string \<Rightarrow> request" where
  "example_request path = \<lparr>req_method = ''GET'', originalUrl = path\<rparr>"


definition example_routes :: "string list" where
  "example_routes = [''/forbidden'', ''/boom'', ''/ok'']"


fun node_error_name :: "node_error \<Rightarrow> string" where
  "node_error_name ERR_HTTP_HEADERS_SENT = ''ERR_HTTP_HEADERS_SENT''"
| "node_error_name (ERR_HTTP_INVALID_STATUS_CODE c) = ''ERR_HTTP_INVALID_STATUS_CODE''"

definition example_wiring :: "(string, int \<times> string, string, string) wiring" where
  "example_wiring =
     \<lparr>statusCodeOf = fst,
      serializeError = snd,
      middleware_run = (\<lambda>m req res. (res, Next)),
      route_matches = (\<lambda>r req. originalUrl req = r),
      route_run = (\<lambda>r req res.
         if r = ''/forbidden'' then (res, NextErr (Custom (403, ''forbidden'')))
         else if r = ''/boom'' then (res, NextErr (Unknown ''boom''))
         else if r = ''/late''
           then (res\<lparr>statusCode := 200, sent := Some (Message ''ok'')\<rparr>,
                 NextErr (Custom (403, ''forbidden'')))
         else (res\<lparr>statusCode := 200, sent := Some (Message ''ok'')\<rparr>, Stop)),
      node_error_value = node_error_name,
      path_decode_error = (\<lambda>req. if originalUrl req = ''/%'' then Some ''URIError'' else None)\<rparr>"

section \<open>Properties of the connection supervisor\<close>

lemma db_run_Cons: "db_run (ev # evs) s = db_run evs (db_step ev s)"
  by (simp add: db_run_def)

lemma db_run_append: "db_run (evs @ evs') s = db_run evs' (db_run evs s)"
  by (simp add: db_run_def)

lemma db_run_exited: "exit_code s = Some c \<Longrightarrow> db_run evs s = s"
  unfolding db_run_def by (induction evs) simp_all

lemma emit_other:
  "listeners s = [(listener_event, fn)] \<Longrightarrow> name \<noteq> listener_event \<Longrightarrow> name \<noteq> ''error'' \<Longrightarrow>
   emit name s = s"
  by (simp add: emit_def)

lemma db_run_emit_others:
  "listeners s = [(listener_event, fn)] \<Longrightarrow> listener_event \<notin> set ns \<Longrightarrow> ''error'' \<notin> set ns \<Longrightarrow>
   db_run (map Emit ns) s = s"
  unfolding db_run_def
  by (induction ns) (auto simp: emit_other split: option.splits)

text \<open>
  An \<open>error\<close> event on the connection, for which the module registers no listener, ends
  the process before anything else can happen.
\<close>

lemma unhandled_error_event_crashes:
  "crashed (db_run [Emit ''error'', Rejected e] (setupDatabase init_db))
   \<and> db_log (db_run [Emit ''error'', Rejected e] (setupDatabase init_db)) = []
   \<and> exit_code (db_run [Emit ''error'', Rejected e] (setupDatabase init_db)) = None"
  by (simp add: db_run_def setupDatabase_def connection_on_def connect_def init_db_def emit_def
      listener_event_def)

lemma setupDatabase_listeners:
  "listeners (setupDatabase init_db) = [(listener_event, ConnectFn)]"
  by (simp add: setupDatabase_def connection_on_def connect_def init_db_def)

lemma disconnects_ignored:
  "exit_code s = None \<Longrightarrow> listeners s = [(listener_event, fn)] \<Longrightarrow>
   db_run (replicate n (Emit disconnected_event)) s = s"
  unfolding db_run_def
  by (induction n) (simp_all add: emit_def listener_event_def disconnected_event_def)

text \<open>
  C1.  The claim is that each disconnect notification after a successful initial
  connect calls \<open>connect\<close> again, so that \<open>n\<close> notifications give \<open>n\<close> reconnect attempts.
  In the code the listener is registered under the text of a log message, not under the
  name of the event that the connection emits.  So after the initial connect has
  succeeded, any number \<open>n\<close> of disconnect notifications leaves \<open>mongoose.connect\<close> called
  exactly once, by the initial attempt: there is no reconnect attempt at all.
\<close>

theorem disconnect_does_not_reconnect:
  "attempts (db_run (Resolved # replicate n (Emit disconnected_event)) (setupDatabase init_db)) = 1"
proof -
  let ?s1 = "db_step Resolved (setupDatabase init_db) :: 'a db_state"
  have a: "exit_code ?s1 = None" "listeners ?s1 = [(listener_event, ConnectFn)]"
    by (simp_all add: setupDatabase_def connection_on_def connect_def init_db_def
        on_connected_def)
  have "db_run (Resolved # replicate n (Emit disconnected_event)) (setupDatabase init_db) = ?s1"
    by (simp only: db_run_Cons disconnects_ignored [OF a])
  then show ?thesis
    by (simp add: setupDatabase_def connection_on_def connect_def init_db_def on_connected_def)
qed

text \<open>
  Were the listener ever called (its own event name emitted), the reconnect would go
  through the same \<open>catch\<close> callback, and a failing reconnect would end the process.
\<close>

lemma failing_reconnect_exits:
  "exit_code (db_run [Resolved, Emit listener_event, Rejected e] (setupDatabase init_db)) = Some 1"
  by (simp add: db_run_def setupDatabase_def connection_on_def connect_def init_db_def
      on_connected_def on_connect_error_def emit_def)

text \<open>
  C2.  If the initial connection attempt fails, the error is logged and the process
  exits with code 1, and \<open>mongoose.connect\<close> has been called once only, by the initial
  attempt: no reconnect is attempted before the process ends.  This holds whatever
  events the connection emits before the failure, as long as none carries the name
  under which the listener is registered and none is an \<open>error\<close> event (which, unhandled,
  would end the process first), and whatever would have happened afterwards.
\<close>

theorem initial_failure_is_fatal:
  assumes "listener_event \<notin> set ns" and "''error'' \<notin> set ns"
  shows "exit_code (db_run (map Emit ns @ Rejected e # rest) (setupDatabase init_db)) = Some 1
       \<and> db_log (db_run (map Emit ns @ Rejected e # rest) (setupDatabase init_db))
           = [LogErrorMsg ''[x] Error connecting to database'' e]
       \<and> attempts (db_run (map Emit ns @ Rejected e # rest) (setupDatabase init_db)) = 1"
proof -
  let ?s0 = "setupDatabase init_db :: 'a db_state"
  let ?s1 = "db_step (Rejected e) ?s0"
  have pre: "db_run (map Emit ns) ?s0 = ?s0"
    using assms by (rule db_run_emit_others [OF setupDatabase_listeners])
  have ex: "exit_code ?s1 = Some 1"
    by (simp add: setupDatabase_def connection_on_def connect_def init_db_def
        on_connect_error_def)
  have "db_run (map Emit ns @ Rejected e # rest) ?s0 = db_run rest ?s1"
    by (simp add: db_run_append db_run_Cons pre)
  also have "\<dots> = ?s1" using ex by (rule db_run_exited)
  finally have eq: "db_run (map Emit ns @ Rejected e # rest) ?s0 = ?s1" .
  show ?thesis unfolding eq
    by (simp add: setupDatabase_def connection_on_def connect_def init_db_def
        on_connect_error_def)
qed

theorem initial_failure_is_fatal_witness:
  "exit_code (db_run (map Emit [disconnected_event, ''close''] @
         Rejected ''ECONNREFUSED'' # [Emit listener_event, Resolved]) (setupDatabase init_db)) = Some 1
   \<and> db_log (db_run (map Emit [disconnected_event, ''close''] @
         Rejected ''ECONNREFUSED'' # [Emit listener_event, Resolved]) (setupDatabase init_db))
       = [LogErrorMsg ''[x] Error connecting to database'' ''ECONNREFUSED'']
   \<and> attempts (db_run (map Emit [disconnected_event, ''close''] @
         Rejected ''ECONNREFUSED'' # [Emit listener_event, Resolved]) (setupDatabase init_db)) = 1"
proof -
  have h: "listener_event \<notin> set [disconnected_event, ''close'']"
    by (simp add: listener_event_def disconnected_event_def)
  have h': "''error'' \<notin> set [disconnected_event, ''close'']"
    by (simp add: disconnected_event_def)
  show ?thesis
    using initial_failure_is_fatal [OF h h', of "''ECONNREFUSED''" "[Emit listener_event, Resolved]"]
    by simp
qed

section \<open>Properties of the server startup\<close>

lemma exec_from: "exec env cs t = (t @ fst (exec env cs []), snd (exec env cs []))"
proof (induction cs arbitrary: t)
  case Nil
  show ?case by simp
next
  case (Cons c cs)
  show ?case
  proof (cases "perform env c")
    case None
    then show ?thesis using Cons [of "t @ [c]"] Cons [of "[c]"] by simp
  next
    case (Some e)
    then show ?thesis by simp
  qed
qed



lemmas cs_defs = createSocketIO_def promise_all_def

lemma await_after_both_connects:
  "createSocketIO cfg env [] = (t, r) \<Longrightarrow> AwaitAll \<in> set t \<Longrightarrow>
   \<exists>post. t = [NewSocketServer (socket_cors cfg), CreateClient (REDIS_HOST cfg), Duplicate,
                 PubConnect, SubConnect, AwaitAll] @ post"
  by (auto simp: cs_defs split: option.splits)

lemma adapter_needs_both_ready:
  "createSocketIO cfg env [] = (t, r) \<Longrightarrow> InstallAdapter \<in> set t \<Longrightarrow>
   pubResult env = None \<and> subResult env = None
   \<and> t = [NewSocketServer (socket_cors cfg), CreateClient (REDIS_HOST cfg), Duplicate,
          PubConnect, SubConnect, AwaitAll, CreateAdapter, InstallAdapter]"
  by (auto simp: cs_defs split: option.splits)

lemma broker_failure_surfaces:
  "createSocketIO cfg env [] = (t, r) \<Longrightarrow> pubResult env \<noteq> None \<or> subResult env \<noteq> None \<Longrightarrow>
   \<exists>e. r = Some e"
  by (auto simp: cs_defs split: option.splits dest: sym)

lemma broker_failure_reason:
  "createSocketIO cfg env [] = (t, r) \<Longrightarrow> AwaitAll \<in> set t \<Longrightarrow> CreateAdapter \<notin> set t \<Longrightarrow>
   r = promise_all env"
  by (auto simp: cs_defs split: option.splits dest: sym)

text \<open>
  C3.  In \<open>createSocketIO\<close>, whenever the \<open>await\<close> is reached both \<open>connect()\<close> calls have
  already been made, the publish client first.  \<open>io.adapter\<close> is called only if both
  clients opened, and then only after the \<open>await\<close>.  If either client fails to open,
  \<open>io.adapter\<close> is never called and \<open>createSocketIO\<close> ends with an exception, which goes to
  its caller.  All of this holds whichever of the other calls throw.
\<close>

theorem fan_out_attach_ordering:
  assumes "createSocketIO cfg env [] = (t, r)"
  shows "(AwaitAll \<in> set t \<longrightarrow>
            (\<exists>post. t = [NewSocketServer (socket_cors cfg), CreateClient (REDIS_HOST cfg), Duplicate,
                          PubConnect, SubConnect, AwaitAll] @ post))
       \<and> (InstallAdapter \<in> set t \<longrightarrow>
            pubResult env = None \<and> subResult env = None
            \<and> t = [NewSocketServer (socket_cors cfg), CreateClient (REDIS_HOST cfg), Duplicate,
                   PubConnect, SubConnect, AwaitAll, CreateAdapter, InstallAdapter])
       \<and> (pubResult env \<noteq> None \<or> subResult env \<noteq> None \<longrightarrow>
            InstallAdapter \<notin> set t \<and> (\<exists>e. r = Some e))"
proof -
  have a: "AwaitAll \<in> set t \<longrightarrow>
            (\<exists>post. t = [NewSocketServer (socket_cors cfg), CreateClient (REDIS_HOST cfg), Duplicate,
                          PubConnect, SubConnect, AwaitAll] @ post)"
    using await_after_both_connects [OF assms] by (rule impI)
  have b: "InstallAdapter \<in> set t \<longrightarrow>
            pubResult env = None \<and> subResult env = None
            \<and> t = [NewSocketServer (socket_cors cfg), CreateClient (REDIS_HOST cfg), Duplicate,
                   PubConnect, SubConnect, AwaitAll, CreateAdapter, InstallAdapter]"
    using adapter_needs_both_ready [OF assms] by (rule impI)
  have c: "pubResult env \<noteq> None \<or> subResult env \<noteq> None \<longrightarrow>
            InstallAdapter \<notin> set t \<and> (\<exists>e. r = Some e)"
  proof (intro impI conjI)
    assume f: "pubResult env \<noteq> None \<or> subResult env \<noteq> None"
    show "InstallAdapter \<notin> set t"
    proof
      assume "InstallAdapter \<in> set t"
      then have "pubResult env = None \<and> subResult env = None"
        using adapter_needs_both_ready [OF assms] by simp
      with f show False by simp
    qed
    show "\<exists>e. r = Some e"
      using f by (rule broker_failure_surfaces [OF assms])
  qed
  show ?thesis by (rule conjI [OF a conjI [OF b c]])
qed

theorem fan_out_attach_ordering_witness:
  "createSocketIO example_config broker_down []
     = ([NewSocketServer (socket_cors example_config), CreateClient (REDIS_HOST example_config),
         Duplicate, PubConnect, SubConnect, AwaitAll], Some ''ECONNREFUSED'')
   \<and> AwaitAll \<in> set (fst (createSocketIO example_config broker_down []))
   \<and> subResult broker_down \<noteq> None
   \<and> InstallAdapter \<notin> set (fst (createSocketIO example_config broker_down []))
   \<and> createSocketIO example_config all_up []
     = ([NewSocketServer (socket_cors example_config), CreateClient (REDIS_HOST example_config),
         Duplicate, PubConnect, SubConnect, AwaitAll, CreateAdapter, InstallAdapter], None)
   \<and> InstallAdapter \<in> set (fst (createSocketIO example_config all_up []))
   \<and> pubResult all_up = None \<and> subResult all_up = None"
proof -
  have d: "createSocketIO example_config broker_down []
     = ([NewSocketServer (socket_cors example_config), CreateClient (REDIS_HOST example_config),
         Duplicate, PubConnect, SubConnect, AwaitAll], Some ''ECONNREFUSED'')"
    by (simp add: createSocketIO_def promise_all_def broker_down_def no_throw_def)
  have u: "createSocketIO example_config all_up []
     = ([NewSocketServer (socket_cors example_config), CreateClient (REDIS_HOST example_config),
         Duplicate, PubConnect, SubConnect, AwaitAll, CreateAdapter, InstallAdapter], None)"
    by (simp add: createSocketIO_def promise_all_def all_up_def no_throw_def)
  show ?thesis
    using fan_out_attach_ordering [OF d] fan_out_attach_ordering [OF u] d u
    by (simp add: broker_down_def all_up_def)
qed

lemma exec_keeps_prefix: "\<exists>t'. fst (exec env cs t) = t @ t'"
  by (subst exec_from) simp

lemma and_then_exec: "and_then (exec env cs t) (exec env cs') = exec env (cs @ cs') t"
proof (induction cs arbitrary: t)
  case Nil
  show ?case
    by (cases "exec env cs' t") (simp add: and_then_def split: option.splits)
next
  case (Cons c cs)
  then show ?case
    by (cases "perform env c") (simp_all add: and_then_def)
qed

lemma startServer_try_exec: "startServer_try cfg env = exec env (try_block_calls cfg env) []"
proof -
  have fin: "and_then r socketIOConnections = r" for r :: "'a op list \<times> 'a option"
    by (cases r) (simp add: and_then_def socketIOConnections_def split: option.splits)
  have cs: "createSocketIO cfg env
      = exec env [NewSocketServer (socket_cors cfg), CreateClient (REDIS_HOST cfg), Duplicate,
                  PubConnect, SubConnect, AwaitAll, CreateAdapter, InstallAdapter]"
    by (rule ext) (simp only: createSocketIO_def)
  have hs: "startHttpServer env
      = exec env [Log (LogInfo (''Server has started with process '' @ pid env)),
                  Listen SERVER_PORT]"
    by (rule ext) (simp only: startHttpServer_def)
  show ?thesis
    unfolding startServer_try_def fin cs hs and_then_exec try_block_calls_def
    by (simp only: append.simps)
qed

lemma exec_first_failure:
  "\<forall>c' \<in> set pre. perform env c' = None \<Longrightarrow> perform env c = Some e \<Longrightarrow>
   exec env (pre @ c # post) t = (t @ pre @ [c], Some e)"
  by (induction pre arbitrary: t) simp_all

lemma exec_no_failure: "\<forall>c \<in> set cs. perform env c = None \<Longrightarrow> exec env cs t = (t @ cs, None)"
  by (induction cs arbitrary: t) simp_all

lemma startServer_resolves: "snd (startServer cfg env) = None"
  by (simp add: startServer_def split: prod.splits option.splits)

text \<open>
  C10.  The claim is that \<open>startServer\<close> catches and logs every failure of the startup
  path, failures to start the HTTP listener included.  With the port in use, every call
  of the \<open>try\<close> block succeeds, \<open>listen\<close> included, and \<open>startServer\<close> resolves having logged
  no error; the failure to bind arrives afterwards as an \<open>error\<close> event on the HTTP server
  and is neither caught nor logged: it ends the process as an uncaught exception.
\<close>

theorem listen_failure_is_uncaught_counterexample:
  "listenResult port_in_use = Some ''EADDRINUSE''
   \<and> startServer example_config port_in_use = (try_block_calls example_config port_in_use, None)
   \<and> after_listen example_config port_in_use
       = (try_block_calls example_config port_in_use, Some ''EADDRINUSE'')
   \<and> Log (LogErrorObj ''EADDRINUSE'') \<notin> set (fst (after_listen example_config port_in_use))"
  by (simp add: after_listen_def startServer_def startServer_try_def and_then_def
      createSocketIO_def startHttpServer_def socketIOConnections_def promise_all_def
      port_in_use_def no_throw_def try_block_calls_def)

text \<open>
  C10, as the code has it.  The promise of \<open>startServer\<close> always resolves, so \<open>start\<close>, which
  leaves it unhandled, never sees a rejection.  Whichever call of the \<open>try\<close> block is the
  first to fail (the construction of the HTTP server or of the socket transport, the
  \<open>await\<close> on the two broker clients, the call of \<open>listen\<close> itself, or any other), no later
  call is made and the \<open>catch\<close> logs that failure at error severity as the last action.
  If no call fails, all of them are made and no error is logged.
\<close>

theorem startServer_contains_try_failures:
  "snd (startServer cfg env) = None
   \<and> startup_rejection (start cfg env routes app) = None
   \<and> startup_calls (start cfg env routes app) = fst (startServer cfg env)
   \<and> (try_block_calls cfg env = pre @ c # post \<and> (\<forall>c' \<in> set pre. perform env c' = None)
        \<and> perform env c = Some e
       \<longrightarrow> fst (startServer cfg env) = pre @ [c, Log (LogErrorObj e)])
   \<and> ((\<forall>c \<in> set (try_block_calls cfg env). perform env c = None)
       \<longrightarrow> fst (startServer cfg env) = try_block_calls cfg env)"
proof -
  have a: "snd (startServer cfg env) = None"
    by (rule startServer_resolves)
  have b: "startup_rejection (start cfg env routes app) = None"
  proof (cases "startServer cfg env")
    case (Pair t r)
    with a show ?thesis by (simp add: start_def)
  qed
  have c: "startup_calls (start cfg env routes app) = fst (startServer cfg env)"
    by (simp add: start_def split: prod.splits)
  have d: "fst (startServer cfg env) = pre @ [c, Log (LogErrorObj e)]"
    if "try_block_calls cfg env = pre @ c # post \<and> (\<forall>c' \<in> set pre. perform env c' = None)
        \<and> perform env c = Some e"
  proof -
    from that have "startServer_try cfg env = (pre @ [c], Some e)"
      using exec_first_failure [of pre env c e post "[]"] by (simp add: startServer_try_exec)
    then show ?thesis by (simp add: startServer_def)
  qed
  have e: "fst (startServer cfg env) = try_block_calls cfg env"
    if "\<forall>c \<in> set (try_block_calls cfg env). perform env c = None"
  proof -
    from that have "startServer_try cfg env = (try_block_calls cfg env, None)"
      using exec_no_failure [of "try_block_calls cfg env" env "[]"]
      by (simp add: startServer_try_exec)
    then show ?thesis by (simp add: startServer_def)
  qed
  show ?thesis using a b c d e by blast
qed

theorem startServer_contains_try_failures_witness:
  "startServer example_config bad_redis_url
     = ([NewHttpServer, NewSocketServer (socket_cors example_config),
         CreateClient (REDIS_HOST example_config), Log (LogErrorObj ''ERR_INVALID_URL'')], None)
   \<and> startup_rejection (start example_config bad_redis_url example_routes []) = None
   \<and> startServer example_config all_up = (try_block_calls example_config all_up, None)"
proof -
  have sp: "try_block_calls example_config bad_redis_url
      = [NewHttpServer, NewSocketServer (socket_cors example_config)]
        @ CreateClient (REDIS_HOST example_config)
        # [Duplicate, PubConnect, SubConnect, AwaitAll, CreateAdapter, InstallAdapter,
           Log (LogInfo (''Server has started with process '' @ pid bad_redis_url)),
           Listen SERVER_PORT]"
    by (simp add: try_block_calls_def)
  have ok: "\<forall>c' \<in> set [NewHttpServer, NewSocketServer (socket_cors example_config)].
      perform bad_redis_url c' = None"
    by (simp add: bad_redis_url_def)
  have fl: "perform bad_redis_url (CreateClient (REDIS_HOST example_config)) = Some ''ERR_INVALID_URL''"
    by (simp add: bad_redis_url_def)
  have up: "\<forall>c \<in> set (try_block_calls example_config all_up). perform all_up c = None"
    by (simp add: try_block_calls_def all_up_def no_throw_def promise_all_def)
  have 1: "fst (startServer example_config bad_redis_url)
      = [NewHttpServer, NewSocketServer (socket_cors example_config)]
        @ [CreateClient (REDIS_HOST example_config), Log (LogErrorObj ''ERR_INVALID_URL'')]"
    using startServer_contains_try_failures [of example_config bad_redis_url example_routes "[]"
        "[NewHttpServer, NewSocketServer (socket_cors example_config)]"
        "CreateClient (REDIS_HOST example_config)" _ "''ERR_INVALID_URL''"] sp ok fl
    by blast
  have 2: "snd (startServer example_config bad_redis_url) = None"
      "startup_rejection (start example_config bad_redis_url example_routes []) = None"
    using startServer_contains_try_failures [of example_config bad_redis_url example_routes "[]"]
    by blast+
  have 3: "fst (startServer example_config all_up) = try_block_calls example_config all_up"
      "snd (startServer example_config all_up) = None"
    using startServer_contains_try_failures [of example_config all_up] up by blast+
  show ?thesis using 1 2 3 by (simp add: prod_eq_iff)
qed

lemma try_cases:
  "startServer_try cfg env = (t, r) \<Longrightarrow> pubResult env \<noteq> None \<or> subResult env \<noteq> None \<Longrightarrow>
     (\<exists>e. r = Some e) \<and> (\<forall>p. Listen p \<notin> set t)"
  apply (simp add: startServer_try_def and_then_def createSocketIO_def startHttpServer_def socketIOConnections_def promise_all_def split: option.splits prod.splits)
  apply (auto dest: sym)
  done


text \<open>
  C4.  The claim is that, when a broker client fails to open, the failure is logged, the
  process does not exit, and the HTTP pipeline is still brought up.  With the subscribe
  client failing, \<open>startServer\<close> logs the failure and resolves, but \<open>listen\<close> is never
  called: the call of \<open>startHttpServer\<close> sits in the same \<open>try\<close> block, after the
  \<open>await\<close> of \<open>createSocketIO\<close>.
\<close>

theorem degraded_http_counterexample:
  "subResult broker_down = Some ''ECONNREFUSED''
   \<and> startServer example_config broker_down
       = ([NewHttpServer, NewSocketServer (socket_cors example_config),
           CreateClient (REDIS_HOST example_config), Duplicate, PubConnect, SubConnect, AwaitAll,
           Log (LogErrorObj ''ECONNREFUSED'')], None)
   \<and> Listen SERVER_PORT \<notin> set (fst (startServer example_config broker_down))"
  by (simp add: startServer_def startServer_try_def and_then_def createSocketIO_def
      startHttpServer_def socketIOConnections_def promise_all_def broker_down_def no_throw_def)

text \<open>
  C4, as the code has it.  When either broker client fails to open, \<open>startServer\<close> logs a
  failure at error severity as its last action and resolves (the module never calls
  \<open>process.exit\<close>), and \<open>listen\<close> is not called on any port.
\<close>

theorem broker_failure_logged_not_served:
  assumes "pubResult env \<noteq> None \<or> subResult env \<noteq> None"
  shows "snd (startServer cfg env) = None
       \<and> (\<exists>t e. fst (startServer cfg env) = t @ [Log (LogErrorObj e)])
       \<and> (\<forall>p. Listen p \<notin> set (fst (startServer cfg env)))"
proof -
  obtain t r where tr: "startServer_try cfg env = (t, r)"
    by (cases "startServer_try cfg env")
  from try_cases [OF tr assms] obtain e where r: "r = Some e" and nl: "\<forall>p. Listen p \<notin> set t"
    by blast
  have "startServer cfg env = (t @ [Log (LogErrorObj e)], None)"
    by (simp add: startServer_def tr r)
  then show ?thesis using nl by simp
qed

theorem broker_failure_logged_not_served_witness:
  "subResult broker_down = Some ''ECONNREFUSED''
   \<and> snd (startServer example_config broker_down) = None
   \<and> fst (startServer example_config broker_down)
       = [NewHttpServer, NewSocketServer (socket_cors example_config),
          CreateClient (REDIS_HOST example_config), Duplicate, PubConnect, SubConnect, AwaitAll]
         @ [Log (LogErrorObj ''ECONNREFUSED'')]
   \<and> Listen 5000 \<notin> set (fst (startServer example_config broker_down))"
proof -
  have h: "pubResult broker_down \<noteq> None \<or> subResult broker_down \<noteq> None"
    by (simp add: broker_down_def)
  have v: "startServer example_config broker_down
       = ([NewHttpServer, NewSocketServer (socket_cors example_config),
           CreateClient (REDIS_HOST example_config), Duplicate, PubConnect, SubConnect, AwaitAll,
           Log (LogErrorObj ''ECONNREFUSED'')], None)"
    by (simp add: startServer_def startServer_try_def and_then_def createSocketIO_def
      startHttpServer_def socketIOConnections_def promise_all_def broker_down_def no_throw_def)
  have s: "subResult broker_down = Some ''ECONNREFUSED''"
    by (simp add: broker_down_def)
  show ?thesis
    using s broker_failure_logged_not_served [OF h, of example_config] v by simp
qed

lemma all_up_serves:
  "startServer example_config all_up
     = ([NewHttpServer, NewSocketServer (socket_cors example_config),
         CreateClient (REDIS_HOST example_config), Duplicate, PubConnect, SubConnect, AwaitAll,
         CreateAdapter, InstallAdapter, Log (LogInfo ''Server has started with process 4242''),
         Listen 5000], None)"
  by (simp add: startServer_def startServer_try_def and_then_def createSocketIO_def
      startHttpServer_def socketIOConnections_def promise_all_def all_up_def no_throw_def SERVER_PORT_def)

text \<open>
  C9.  The CORS middleware that \<open>start\<close> registers is built from \<open>http_cors\<close>, the socket
  transport that \<open>createSocketIO\<close> constructs first of all from \<open>socket_cors\<close>, and the two
  agree on the allowed origin and on the allowed verbs, for every configuration.
\<close>

theorem transport_cors_matches_http:
  "Use (Cors (http_cors cfg)) \<in> set (pipeline (start cfg env routes app))
   \<and> hd (fst (createSocketIO cfg env [])) = NewSocketServer (socket_cors cfg)
   \<and> origin (socket_cors cfg) = origin (http_cors cfg)
   \<and> methods (socket_cors cfg) = methods (http_cors cfg)"
proof -
  have "hd (fst (createSocketIO cfg env [])) = NewSocketServer (socket_cors cfg)"
    using exec_keeps_prefix [of env _ "[NewSocketServer (socket_cors cfg)]"]
    by (auto simp: createSocketIO_def split: option.splits)
  then show ?thesis
    by (simp add: start_def securityMiddleware_def standardMiddleware_def routesMiddleware_def
        globalErrorHandler_def http_cors_def socket_cors_def split: prod.splits)
qed

text \<open>
  The two option objects are not equal as a whole: \<open>credentials\<close> and
  \<open>optionsSuccessStatus\<close> are set for the HTTP middleware only.
\<close>

lemma cors_credentials_differ: "credentials (socket_cors cfg) \<noteq> credentials (http_cors cfg)"
  by (simp add: http_cors_def socket_cors_def)

section \<open>Properties of the request pipeline\<close>

text \<open>
  C8.  \<open>start\<close> appends to the layers already on the application, in this order: the four
  security middleware, the three body and size middleware, the routes, the not-found
  catch-all, and the error handler, which is the last layer.  The list does not depend on
  the request: \<open>dispatch\<close> walks the same list for every request.
\<close>

theorem pipeline_order:
  "pipeline (start cfg env routes app)
     = app
       @ [Use (CookieSession (session_options cfg)), Use Hpp, Use Helmet, Use (Cors (http_cors cfg))]
       @ [Use Compression, Use (Json ''50mb''), Use (Urlencoded True ''50mb'')]
       @ map Route routes
       @ [AllStar]
       @ [ErrorUse]
   \<and> last (pipeline (start cfg env routes app)) = ErrorUse"
  by (simp add: start_def securityMiddleware_def standardMiddleware_def routesMiddleware_def
        globalErrorHandler_def split: prod.splits)

lemma pipeline_start:
  "pipeline (start cfg env routes app)
     = app @ [Use (CookieSession (session_options cfg)), Use Hpp, Use Helmet, Use (Cors (http_cors cfg)),
        Use Compression, Use (Json ''50mb''), Use (Urlencoded True ''50mb'')]
       @ map Route routes @ [AllStar, ErrorUse]"
  by (simp add: start_def securityMiddleware_def standardMiddleware_def routesMiddleware_def
        globalErrorHandler_def split: prod.splits)



lemma dispatch_error_skips:
  "ErrorUse \<notin> set ls \<Longrightarrow> dispatch w (ls @ rest) req (Some e) x = dispatch w rest req (Some e) x"
proof (induction ls)
  case Nil
  show ?case by simp
next
  case (Cons l ls)
  then show ?case by (cases l) simp_all
qed

lemma suffix_ends_with_handler:
  assumes "pipeline (start cfg env routes []) = pre @ post" and "post \<noteq> []"
  shows "\<exists>ls. post = ls @ [ErrorUse] \<and> ErrorUse \<notin> set ls"
proof -
  let ?P0 = "[Use (CookieSession (session_options cfg)), Use Hpp, Use Helmet, Use (Cors (http_cors cfg)),
        Use Compression, Use (Json ''50mb''), Use (Urlencoded True ''50mb'')]
       @ map Route routes @ [AllStar]"
  have P: "pre @ post = ?P0 @ [ErrorUse]"
    using assms(1) by (simp add: pipeline_start)
  from assms(2) obtain ls l where post: "post = ls @ [l]"
    by (cases post rule: rev_cases) auto
  from P post have "(pre @ ls) @ [l] = ?P0 @ [ErrorUse]" by simp
  then have "pre @ ls = ?P0" and l: "l = ErrorUse" by (simp_all only: append1_eq_conv)
  then have "set ls \<subseteq> set ?P0" by (metis set_append Un_upper2)
  moreover have "ErrorUse \<notin> set ?P0" by auto
  ultimately show ?thesis using post l by auto
qed

lemmas example_defs = example_wiring_def example_request_def example_routes_def
  new_exchange_def fresh_response_def


text \<open>
  Nor does a request whose path does not decode: the framework fails before it calls
  the handler of the \<open>'*'\<close> route, and the failure goes to the error handler, which logs
  it and does not answer.
\<close>

lemma malformed_path_skips_catch_all:
  "dispatch example_wiring (pipeline (start example_config all_up example_routes []))
     (example_request ''/%'') None new_exchange
   = FellThrough \<lparr>resp = \<lparr>statusCode = 200, sent = None\<rparr>,
                  srv_log = [LogErrorObj (Unknown ''URIError'')]\<rparr> None"
  by (simp add: pipeline_start errorHandler_def example_defs)






text \<open>
  C5.  The claim is that for an error that is not a \<open>CustomError\<close> the failure handler
  logs it and still emits a response.  For the route \<open>/boom\<close>, which throws such an error,
  the handler logs the error and sends nothing: the response is left unsent when control
  leaves the last layer.
\<close>

theorem unknown_error_gets_no_response_counterexample:
  "sent (resp (fst (errorHandler (statusCodeOf example_wiring) (serializeError example_wiring)
       (Unknown ''boom'') (example_request ''/boom'') new_exchange))) = None
   \<and> dispatch example_wiring (pipeline (start example_config all_up example_routes []))
       (example_request ''/boom'') None new_exchange
     = FellThrough \<lparr>resp = \<lparr>statusCode = 200, sent = None\<rparr>,
                    srv_log = [LogErrorObj (Unknown ''boom'')]\<rparr> None"
  by (simp add: pipeline_start errorHandler_def example_defs)

text \<open>
  C5, as the code has it.  Wherever in the pipeline an error that is not a
  \<open>CustomError\<close> is raised, the error handler logs it at error severity, leaves the response
  as it was, and calls \<open>next()\<close> with no error: control leaves the last layer with no error
  pending, so no error goes past the handler.
\<close>

theorem unknown_error_is_only_logged:
  assumes "pipeline (start cfg env routes []) = pre @ post" and "post \<noteq> []"
  shows "dispatch w post req (Some (Unknown u)) x
       = FellThrough \<lparr>resp = resp x, srv_log = srv_log x @ [LogErrorObj (Unknown u)]\<rparr> None"
proof -
  from suffix_ends_with_handler [OF assms] obtain ls where
    post: "post = ls @ [ErrorUse]" and ls: "ErrorUse \<notin> set ls" by blast
  show ?thesis
    unfolding post dispatch_error_skips [OF ls]
    by (simp add: errorHandler_def)
qed

theorem unknown_error_is_only_logged_witness:
  "dispatch example_wiring [Route ''/ok'', AllStar, ErrorUse]
     (example_request ''/boom'') (Some (Unknown ''boom'')) new_exchange
   = FellThrough \<lparr>resp = \<lparr>statusCode = 200, sent = None\<rparr>,
                  srv_log = [LogErrorObj (Unknown ''boom'')]\<rparr> None"
proof -
  have h1: "pipeline (start example_config all_up example_routes [])
      = [Use (CookieSession (session_options example_config)), Use Hpp, Use Helmet,
         Use (Cors (http_cors example_config)), Use Compression, Use (Json ''50mb''),
         Use (Urlencoded True ''50mb''), Route ''/forbidden'', Route ''/boom'']
        @ [Route ''/ok'', AllStar, ErrorUse]"
    by (simp add: pipeline_start example_routes_def)
  have h2: "[Route ''/ok'', AllStar, ErrorUse] \<noteq> ([] :: string layer list)"
    by simp
  show ?thesis
    using unknown_error_is_only_logged [OF h1 h2, of example_wiring "example_request ''/boom''"
        "''boom''" new_exchange]
    by (simp add: example_defs)
qed

text \<open>A request that a route answers never reaches the catch-all.\<close>

lemma matched_route_answers:
  "dispatch example_wiring (pipeline (start example_config all_up example_routes []))
     (example_request ''/ok'') None new_exchange
   = Finished \<lparr>resp = \<lparr>statusCode = 200, sent = Some (Message ''ok'')\<rparr>, srv_log = []\<rparr>"
  by (simp add: pipeline_start example_defs)

end
